theory Spec2Isabelle
  imports Complex_Main "HOL-Library.Word" "HOL-Library.Multiset"
begin

section \<open>Values, errors and the world outside \<open>ImgConversion\<close>\<close>

text \<open>
  The development embeds \<^verbatim>\<open>instamatic/cred/ImgConversion.py\<close>. Python numbers are
  modelled as \<^typ>\<open>real\<close> (arithmetic is exact; the rounding of binary floating point is
  modelled separately, for the mean of the beam centers), Python 2 byte strings as \<^typ>\<open>string\<close>, a two-dimensional numpy array as the
  list of its rows, and every exception as a value of \<open>error\<close>. Messages sent to the
  console and to the logger are not modelled.
\<close>

datatype error =
    IOError string
  | ValueError string
  | KeyError string
  | IndexError
  | AttributeError string
  | ZeroDivisionError

datatype pyval = PInt int | PFloat real | PStr string

type_synonym 'a image = "'a list list"

type_synonym header = "(string \<times> pyval) list"

type_synonym fs = "string \<rightharpoonup> string"

text \<open>
  The value of \<^verbatim>\<open>np.mean(centers, axis=0)\<close>: for an empty list numpy returns the scalar
  \<open>nan\<close> (with a warning), otherwise an array of two components.
\<close>

datatype center = nan_scalar | xy real real

text \<open>
  Everything \<open>ImgConversion\<close> imports or calls without defining it: the collaborators
  \<^verbatim>\<open>read_tiff\<close>, \<^verbatim>\<open>write_tiff\<close>, \<^verbatim>\<open>write_adsc\<close>, \<^verbatim>\<open>apply_flatfield_correction\<close>,
  \<^verbatim>\<open>apply_stretch_correction\<close>, \<^verbatim>\<open>find_beam_center\<close>, the configuration table
  \<^verbatim>\<open>config.diffraction_pixeldimensions\<close>, the text template \<^verbatim>\<open>XDS_template\<close>, numpy's
  casts and byte layout, Python's number formatting, and whether a file can be opened
  for writing. Stored frames have pixel type \<open>'p\<close>; the array returned by the stretch
  correction has pixel type \<open>'q\<close>.
\<close>

record ('p, 'q) env =
  curdir :: string
  diffraction_pixeldimensions :: "int \<rightharpoonup> real"
  read_tiff :: "string \<Rightarrow> error + ('p image \<times> header)"
  write_tiff :: "string \<Rightarrow> 'p image \<Rightarrow> header \<Rightarrow> fs \<Rightarrow> error option \<times> fs"
  write_adsc :: "string \<Rightarrow> 16 word image \<Rightarrow> header \<Rightarrow> fs \<Rightarrow> error option \<times> fs"
  apply_flatfield_correction :: "'p image \<Rightarrow> 'p image \<Rightarrow> 'p image"
  apply_stretch_correction :: "16 word image \<Rightarrow> real \<times> real \<Rightarrow> real \<Rightarrow> real \<Rightarrow> 'q image"
  find_beam_center :: "'p image \<Rightarrow> real \<Rightarrow> real \<times> real"
  XDS_template_format :: "header \<Rightarrow> string"
  np_ushort :: "'p \<Rightarrow> 16 word"
  np_int16 :: "'p \<Rightarrow> 16 word"
  pixel_bytes :: "'q \<Rightarrow> string"
  str_format :: "real \<Rightarrow> string"
  format_2f :: "real \<Rightarrow> string"
  py_str :: "pyval \<Rightarrow> string"
  can_open :: "string \<Rightarrow> bool"

subsection \<open>Paths and file names\<close>

text \<open>\<^verbatim>\<open>os.path.join(a, b)\<close> for two components, as \<^verbatim>\<open>posixpath\<close> defines it.\<close>

definition os_path_join :: "string \<Rightarrow> string \<Rightarrow> string" where
  "os_path_join a b =
     (if b \<noteq> [] \<and> hd b = CHR ''/'' then b
      else if a = [] \<or> last a = CHR ''/'' then a @ b
      else a @ ''/'' @ b)"

definition digit_char :: "nat \<Rightarrow> char" where
  "digit_char d = ''0123456789'' ! d"

fun dec :: "nat \<Rightarrow> string" where
  "dec n = (if n < 10 then [digit_char n] else dec (n div 10) @ [digit_char (n mod 10)])"

declare dec.simps [simp del]

text \<open>\<^verbatim>\<open>"{:05d}".format(j)\<close> for a non-negative \<open>j\<close>: decimal, zero-padded to five digits.\<close>

definition format_05d :: "nat \<Rightarrow> string" where
  "format_05d j = replicate (5 - length (dec j)) (CHR ''0'') @ dec j"

text \<open>
  Reading a decimal numeral back. The encoders never do this; it serves to show that
  distinct frame indices get distinct file names.
\<close>

definition digit_val :: "char \<Rightarrow> nat" where
  "digit_val c = of_char c - 48"

definition undec :: "string \<Rightarrow> nat" where
  "undec s = foldl (\<lambda>a c. 10 * a + digit_val c) 0 s"

subsection \<open>Files\<close>

text \<open>
  \<^verbatim>\<open>open(fn, 'w')\<close> raises \<open>IOError\<close> or leaves an empty file; \<^verbatim>\<open>write\<close> appends to
  the file opened under that name.
\<close>

definition fopen_w :: "('p, 'q) env \<Rightarrow> string \<Rightarrow> fs \<Rightarrow> error + fs" where
  "fopen_w env fn fs = (if can_open env fn then Inr (fs(fn \<mapsto> [])) else Inl (IOError fn))"

definition fwrite :: "string \<Rightarrow> string \<Rightarrow> fs \<Rightarrow> fs" where
  "fwrite fn s fs = fs(fn \<mapsto> (case fs fn of None \<Rightarrow> s | Some old \<Rightarrow> old @ s))"

section \<open>The class \<open>ImgConversion\<close>\<close>

record 'p ImgConversion =
  pxd :: "int \<rightharpoonup> real"
  flatfield :: "'p image"
  mrc_header :: string
  headers :: "header list"
  data :: "'p image list"
  pixelsize :: real
  physical_pixelsize :: real
  wavelength :: real
  beam_center :: center
  distance :: real
  osangle :: real
  startangle :: real
  endangle :: real
  rotation_angle :: real
  dmax :: real
  dmin :: real

text \<open>The constant assigned to \<^verbatim>\<open>self.mrc_header\<close>, byte for byte.\<close>

definition MRC_HEADER :: string where
  "MRC_HEADER = map char_of
     ([4, 2, 0, 0, 4, 2, 0, 0, 1, 0, 0, 0, 1] @ replicate 15 0
      @ [4, 2, 0, 0, 4, 2, 0, 0, 1] @ replicate 17 0
      @ [180, 66, 0, 0, 180, 66, 0, 0, 180, 66, 1, 0, 0, 0, 2, 0, 0, 0, 3] @ replicate 8 0
      @ [136, 56, 70, 120, 6, 115, 65] @ replicate 120 0
      @ [77, 65, 80, 32, 68, 65] @ replicate 6 0 @ [1, 0, 0, 0]
      @ replicate 22 97 @ [44] @ replicate 11 97 @ replicate 766 (0::nat))"

subsection \<open>Construction\<close>

text \<open>
  The loop \<^verbatim>\<open>while len(buffer) != 0: img, h = buffer.pop(0); ...\<close>. It returns the buffer
  it leaves behind together with the two sequences it has built.
\<close>

fun drain :: "('p, 'q) env \<Rightarrow> 'p image \<Rightarrow> ('p image \<times> header) list \<Rightarrow> header list \<Rightarrow> 'p image list
    \<Rightarrow> ('p image \<times> header) list \<times> header list \<times> 'p image list" where
  "drain env ff [] hs ds = ([], hs, ds)"
| "drain env ff ((img, h) # buffer) hs ds =
     drain env ff buffer (hs @ [h]) (ds @ [apply_flatfield_correction env img ff])"

definition np_mean_axis0 :: "(real \<times> real) list \<Rightarrow> center" where
  "np_mean_axis0 cs =
     (if cs = [] then nan_scalar
      else xy (sum_list (map fst cs) / real (length cs)) (sum_list (map snd cs) / real (length cs)))"

definition get_average_beam_center :: "('p, 'q) env \<Rightarrow> 'p image list \<Rightarrow> center" where
  "get_average_beam_center env ds = np_mean_axis0 (map (\<lambda>img. find_beam_center env img 10) ds)"










text \<open>
  \<^verbatim>\<open>__init__\<close>. The result is the caller's buffer as the constructor leaves it, and the
  new instance or the exception raised. The flatfield file is read before the buffer is
  touched; the table lookup and the division come after the buffer has been drained.
  The table holds Python numbers, for which division by zero raises \<open>ZeroDivisionError\<close>.
\<close>

definition init :: "('p, 'q) env \<Rightarrow> ('p image \<times> header) list \<Rightarrow> int \<Rightarrow> real \<Rightarrow> real \<Rightarrow> real \<Rightarrow> real
    \<Rightarrow> real \<times> real \<Rightarrow> string \<Rightarrow> ('p image \<times> header) list \<times> (error + 'p ImgConversion)" where
  "init env buffer camera_length osangle' startangle' endangle' rotation_angle' resolution_range ff_name =
     (case read_tiff env (os_path_join (curdir env) ff_name) of
        Inl e \<Rightarrow> (buffer, Inl e)
      | Inr (ff, h) \<Rightarrow>
          (case drain env ff buffer [] [] of
             (buffer', hs, ds) \<Rightarrow>
               (case diffraction_pixeldimensions env camera_length of
                  None \<Rightarrow> (buffer', Inl (KeyError ''camera_length''))
                | Some ps \<Rightarrow>
                    if ps = 0 then (buffer', Inl ZeroDivisionError)
                    else (buffer', Inr \<lparr>
                      pxd = diffraction_pixeldimensions env,
                      flatfield = ff,
                      mrc_header = MRC_HEADER,
                      headers = hs,
                      data = ds,
                      pixelsize = ps,
                      physical_pixelsize = 0.055,
                      wavelength = 0.025080,
                      beam_center = get_average_beam_center env ds,
                      distance = 483.89 * 0.00412 / ps,
                      osangle = osangle',
                      startangle = startangle',
                      endangle = endangle',
                      rotation_angle = rotation_angle',
                      dmax = fst resolution_range,
                      dmin = snd resolution_range \<rparr>))))"

subsection \<open>\<open>writeTiff\<close>\<close>

text \<open>
  The loop over \<^verbatim>\<open>enumerate(izip(self.data, self.headers))\<close>, started at index \<open>i\<close>. An
  exception of \<^verbatim>\<open>write_tiff\<close> leaves the loop at once: there is no handler.
\<close>

fun writeTiff_loop :: "('p, 'q) env \<Rightarrow> string \<Rightarrow> nat \<Rightarrow> ('p image \<times> header) list \<Rightarrow> fs
    \<Rightarrow> error option \<times> fs" where
  "writeTiff_loop env path i [] fs = (None, fs)"
| "writeTiff_loop env path i ((img, h) # rest) fs =
     (let j = i + 1;
          fn = os_path_join path (format_05d j @ ''.tiff'')
      in case write_tiff env fn img h fs of
           (Some e, fs') \<Rightarrow> (Some e, fs')
         | (None, fs') \<Rightarrow> writeTiff_loop env path (i + 1) rest fs')"

definition writeTiff :: "('p, 'q) env \<Rightarrow> 'p ImgConversion \<Rightarrow> string \<Rightarrow> fs \<Rightarrow> error option \<times> fs" where
  "writeTiff env self path fs = writeTiff_loop env path 0 (zip (data self) (headers self)) fs"

subsection \<open>\<open>writeIMG\<close>\<close>

text \<open>Slices \<^verbatim>\<open>xs[a:b]\<close> and \<^verbatim>\<open>xs[a:]\<close> with non-negative bounds, and \<^verbatim>\<open>img[r, c]\<close> for two slices.\<close>

definition np_slice :: "nat \<times> nat option \<Rightarrow> 'a list \<Rightarrow> 'a list" where
  "np_slice s xs = (case snd s of None \<Rightarrow> drop (fst s) xs | Some b \<Rightarrow> take (b - fst s) (drop (fst s) xs))"

definition np_slice2 :: "'a image \<Rightarrow> nat \<times> nat option \<Rightarrow> nat \<times> nat option \<Rightarrow> 'a image" where
  "np_slice2 img rs cs = map (np_slice cs) (np_slice rs img)"

definition ncols :: "'a image \<Rightarrow> nat" where
  "ncols img = (case img of [] \<Rightarrow> 0 | r # _ \<Rightarrow> length r)"

definition np_zeros :: "nat \<Rightarrow> nat \<Rightarrow> 16 word image" where
  "np_zeros h w = replicate h (replicate w 0)"

text \<open>
  Assignment to a slice broadcasts the source: an axis of the source must have the
  length of the target's axis or length 1, otherwise numpy raises \<open>ValueError\<close>.
\<close>

definition stretch :: "nat \<Rightarrow> 'a list \<Rightarrow> 'a list" where
  "stretch n xs = (if length xs = n then xs else replicate n (hd xs))"

definition broadcast_to :: "nat \<Rightarrow> nat \<Rightarrow> 'a image \<Rightarrow> error + 'a image" where
  "broadcast_to h w src =
     (if (length src = h \<or> length src = 1) \<and> (ncols src = w \<or> ncols src = 1)
      then Inr (stretch h (map (stretch w) src))
      else Inl (ValueError ''could not broadcast input array''))"

text \<open>\<^verbatim>\<open>target[rs, cs] = src\<close>: the rows and columns selected by the slices are overwritten.\<close>

definition put_row :: "nat \<Rightarrow> 'a list \<Rightarrow> 'a list \<Rightarrow> 'a list" where
  "put_row c0 new row = take c0 row @ new @ drop (c0 + length new) row"

definition assign_slice2 :: "'a image \<Rightarrow> nat \<times> nat option \<Rightarrow> nat \<times> nat option \<Rightarrow> 'a image
    \<Rightarrow> error + 'a image" where
  "assign_slice2 target rs cs src =
     (let h = length (np_slice rs target);
          w = ncols (np_slice2 target rs cs)
      in case broadcast_to h w src of
           Inl e \<Rightarrow> Inl e
         | Inr blk \<Rightarrow>
             Inr (take (fst rs) target
                  @ map2 (put_row (fst cs)) blk (np_slice rs target)
                  @ drop (fst rs + h) target))"

text \<open>
  The re-packing step of the loop body: \<^verbatim>\<open>if len(img) == 516: ...; img = newimg\<close>.
\<close>

definition repack :: "16 word image \<Rightarrow> error + 16 word image" where
  "repack img =
     (if length img = 516 then
        (case assign_slice2 (np_zeros 512 512) (0, Some 256) (0, Some 256)
                (np_slice2 img (0, Some 256) (0, Some 256)) of
           Inl e \<Rightarrow> Inl e
         | Inr n1 \<Rightarrow>
        (case assign_slice2 n1 (256, None) (0, Some 256)
                (np_slice2 img (260, None) (0, Some 256)) of
           Inl e \<Rightarrow> Inl e
         | Inr n2 \<Rightarrow>
        (case assign_slice2 n2 (0, Some 256) (256, None)
                (np_slice2 img (0, Some 256) (260, None)) of
           Inl e \<Rightarrow> Inl e
         | Inr n3 \<Rightarrow>
            assign_slice2 n3 (256, None) (256, None)
                (np_slice2 img (260, None) (260, None)))))
      else Inr img)"

text \<open>\<^verbatim>\<open>h[key]\<close> on the acquisition header.\<close>

definition getitem :: "header \<Rightarrow> string \<Rightarrow> error + pyval" where
  "getitem h k = (case map_of h k of None \<Rightarrow> Inl (KeyError k) | Some v \<Rightarrow> Inr v)"

text \<open>\<^verbatim>\<open>c[0]\<close> and \<^verbatim>\<open>c[1]\<close> on the beam center: indexing the scalar raises \<open>IndexError\<close>.\<close>

definition components :: "center \<Rightarrow> error + real \<times> real" where
  "components c = (case c of nan_scalar \<Rightarrow> Inl IndexError | xy x y \<Rightarrow> Inr (x, y))"

text \<open>The ordered dictionary built for one frame, given the two header fields and the center.\<close>

definition smv_header :: "('p, 'q) env \<Rightarrow> 'p ImgConversion \<Rightarrow> pyval \<Rightarrow> pyval \<Rightarrow> real \<times> real \<Rightarrow> header" where
  "smv_header env self t_get t_exp bc =
     [(''HEADER_BYTES'', PInt 512),
      (''DIM'', PInt 2),
      (''BYTE_ORDER'', PStr ''little_endian''),
      (''TYPE'', PStr ''unsigned_short''),
      (''SIZE1'', PInt 512),
      (''SIZE2'', PInt 512),
      (''PIXEL_SIZE'', PFloat (physical_pixelsize self)),
      (''BIN'', PStr ''1x1''),
      (''BIN_TYPE'', PStr ''HW''),
      (''ADC'', PStr ''fast''),
      (''CREV'', PInt 1),
      (''BEAMLINE'', PStr ''TIMEPIX_SU''),
      (''DETECTOR_SN'', PInt 901),
      (''DATE'', PStr (py_str env t_get)),
      (''TIME'', PStr (py_str env t_exp)),
      (''DISTANCE'', PStr (format_2f env (distance self * 1.1))),
      (''TWOTHETA'', PFloat 0),
      (''PHI'', PFloat (startangle self)),
      (''OSC_START'', PFloat (startangle self)),
      (''OSC_RANGE'', PFloat (osangle self)),
      (''WAVELENGTH'', PFloat (wavelength self)),
      (''BEAM_CENTER_X'', PStr (format_2f env (fst bc))),
      (''BEAM_CENTER_Y'', PStr (format_2f env (snd bc))),
      (''DENZO_X_BEAM'', PStr (format_2f env (fst bc * physical_pixelsize self))),
      (''DENZO_Y_BEAM'', PStr (format_2f env (snd bc * physical_pixelsize self)))]"

text \<open>The body of the loop of \<^verbatim>\<open>writeIMG\<close> for the frame at index \<open>i\<close>.\<close>

definition writeIMG_frame :: "('p, 'q) env \<Rightarrow> 'p ImgConversion \<Rightarrow> string \<Rightarrow> nat \<Rightarrow> 'p image \<Rightarrow> header
    \<Rightarrow> fs \<Rightarrow> error option \<times> fs" where
  "writeIMG_frame env self path i img h fs =
     (let j = i + 1 in
      case repack (map (map (np_ushort env)) img) of
        Inl e \<Rightarrow> (Some e, fs)
      | Inr img' \<Rightarrow>
      (case getitem h ''ImageGetTime'' of
        Inl e \<Rightarrow> (Some e, fs)
      | Inr t_get \<Rightarrow>
      (case getitem h ''ImageExposureTime'' of
        Inl e \<Rightarrow> (Some e, fs)
      | Inr t_exp \<Rightarrow>
      (case components (beam_center self) of
        Inl e \<Rightarrow> (Some e, fs)
      | Inr bc \<Rightarrow>
          write_adsc env (os_path_join path (format_05d j @ ''.img'')) img'
            (smv_header env self t_get t_exp bc) fs))))"

fun writeIMG_loop :: "('p, 'q) env \<Rightarrow> 'p ImgConversion \<Rightarrow> string \<Rightarrow> nat \<Rightarrow> ('p image \<times> header) list
    \<Rightarrow> fs \<Rightarrow> error option \<times> fs" where
  "writeIMG_loop env self path i [] fs = (None, fs)"
| "writeIMG_loop env self path i ((img, h) # rest) fs =
     (case writeIMG_frame env self path i img h fs of
        (Some e, fs') \<Rightarrow> (Some e, fs')
      | (None, fs') \<Rightarrow> writeIMG_loop env self path (i + 1) rest fs')"

text \<open>
  The loop header reads \<^verbatim>\<open>self.header\<close>. No statement of the class assigns an attribute
  of that name (the constructor assigns \<^verbatim>\<open>self.headers\<close>), so the lookup raises
  \<open>AttributeError\<close>.
\<close>

definition self_header :: "'p ImgConversion \<Rightarrow> error + header list" where
  "self_header self = Inl (AttributeError ''header'')"

definition writeIMG :: "('p, 'q) env \<Rightarrow> 'p ImgConversion \<Rightarrow> string \<Rightarrow> fs \<Rightarrow> error option \<times> fs" where
  "writeIMG env self path fs =
     (case self_header self of
        Inl e \<Rightarrow> (Some e, fs)
      | Inr hs \<Rightarrow> writeIMG_loop env self path 0 (zip (data self) hs) fs)"

subsection \<open>\<open>fixDistortion\<close> and \<open>MRCCreator\<close>\<close>

definition fixDistortion :: "('p, 'q) env \<Rightarrow> 16 word image \<Rightarrow> center \<Rightarrow> error + 'q image" where
  "fixDistortion env img directXY =
     (case components directXY of
        Inl e \<Rightarrow> Inl e
      | Inr (d0, d1) \<Rightarrow>
          (let c0 = d0;
               c0a = (if d0 > 255 then c0 + 1 else c0);
               c0b = (if d0 > 256 then c0a + 2 else c0a);
               c0c = (if d0 > 257 then c0b + 1 else c0b);
               c1 = d1;
               c1a = (if d1 > 255 then c1 + 1 else c1);
               c1b = (if d1 > 256 then c1a + 2 else c1a);
               c1c = (if d1 > 257 then c1b + 1 else c1b);
               azimuth = - 6.61;
               amplitude = 2.43
           in Inr (apply_stretch_correction env img (c0c, c1c) azimuth amplitude)))"

text \<open>\<^verbatim>\<open>img.tobytes()\<close>: the pixels row after row.\<close>

definition tobytes :: "('p, 'q) env \<Rightarrow> 'q image \<Rightarrow> string" where
  "tobytes env img = concat (map (\<lambda>row. concat (map (pixel_bytes env) row)) img)"

fun MRCCreator_loop :: "('p, 'q) env \<Rightarrow> 'p ImgConversion \<Rightarrow> string \<Rightarrow> nat \<Rightarrow> 'p image list \<Rightarrow> fs
    \<Rightarrow> error option \<times> fs" where
  "MRCCreator_loop env self path i [] fs = (None, fs)"
| "MRCCreator_loop env self path i (img # rest) fs =
     (let j = i + 1;
          fn = os_path_join path (format_05d j @ ''.img'');
          img1 = rev (map (map (np_int16 env)) img)
      in case fixDistortion env img1 (beam_center self) of
           Inl e \<Rightarrow> (Some e, fs)
         | Inr img2 \<Rightarrow>
             (case fopen_w env fn fs of
                Inl e \<Rightarrow> (Some e, fs)
              | Inr fs0 \<Rightarrow>
                  MRCCreator_loop env self path (i + 1) rest
                    (fwrite fn (tobytes env img2) (fwrite fn (mrc_header self) fs0))))"

definition MRCCreator :: "('p, 'q) env \<Rightarrow> 'p ImgConversion \<Rightarrow> string \<Rightarrow> fs \<Rightarrow> error option \<times> fs" where
  "MRCCreator env self path fs = MRCCreator_loop env self path 0 (data self) fs"

subsection \<open>\<open>ED3DCreator\<close>\<close>

text \<open>The line written for the frame at index \<open>i\<close> in the loop over \<^verbatim>\<open>range(len(self.data))\<close>.\<close>

definition ed3d_file_line :: "('p, 'q) env \<Rightarrow> 'p ImgConversion \<Rightarrow> string \<Rightarrow> nat \<Rightarrow> string" where
  "ed3d_file_line env self path i =
     (let j = i + 1;
          fn = os_path_join path (format_05d j @ ''.img'');
          ang = startangle self + osangle self * real i
      in ''FILE '' @ fn @ ''    '' @ str_format env ang @ ''    0    '' @ str_format env ang
           @ ''\<newline>'')"

definition ED3DCreator :: "('p, 'q) env \<Rightarrow> 'p ImgConversion \<Rightarrow> string \<Rightarrow> real \<Rightarrow> fs \<Rightarrow> error option \<times> fs" where
  "ED3DCreator env self path rotation_angle' fs =
     (let ed3d = os_path_join path ''1.ed3d'' in
      case fopen_w env ed3d fs of
        Inl e \<Rightarrow> (Some e, fs)
      | Inr fs0 \<Rightarrow>
          (let fs1 = fwrite ed3d (''WAVELENGTH    '' @ str_format env (wavelength self) @ ''\<newline>'') fs0;
               fs2 = fwrite ed3d (''ROTATIONAXIS    '' @ str_format env rotation_angle' @ ''\<newline>'') fs1;
               fs3 = fwrite ed3d (''CCDPIXELSIZE    '' @ str_format env (pixelsize self) @ ''\<newline>'') fs2;
               fs4 = fwrite ed3d (''GONIOTILTSTEP    '' @ str_format env (osangle self) @ ''\<newline>'') fs3;
               fs5 = fwrite ed3d ''BEAMTILTSTEP    0\<newline>'' fs4;
               fs6 = fwrite ed3d ''BEAMTILTRANGE    0.000\<newline>'' fs5;
               fs7 = fwrite ed3d ''STRETCHINGMP    0.0\<newline>'' fs6;
               fs8 = fwrite ed3d ''STRETCHINGAZIMUTH    0.0\<newline>'' fs7;
               fs9 = fwrite ed3d ''\<newline>'' fs8;
               fs10 = fwrite ed3d ''FILELIST\<newline>'' fs9;
               fs11 = fold (\<lambda>i. fwrite ed3d (ed3d_file_line env self path i))
                        [0 ..< length (data self)] fs10
           in (None, fwrite ed3d ''ENDFILELIST'' fs11)))"

subsection \<open>\<open>XDSINPCreator\<close>\<close>

definition XDSINPCreator :: "('p, 'q) env \<Rightarrow> 'p ImgConversion \<Rightarrow> string \<Rightarrow> real \<Rightarrow> fs \<Rightarrow> error option \<times> fs" where
  "XDSINPCreator env self pathsmv rotation_angle' fs =
     (let indend = length (data self) in
      case components (beam_center self) of
        Inl e \<Rightarrow> (Some e, fs)
      | Inr bc \<Rightarrow>
          (let s = XDS_template_format env
                 [(''data_begin'', PInt 1),
                  (''data_end'', PInt (int indend)),
                  (''starting_angle'', PFloat (startangle self)),
                  (''wavelength'', PFloat (wavelength self)),
                  (''dmin'', PFloat (dmin self)),
                  (''dmax'', PFloat (dmax self)),
                  (''origin_x'', PFloat (fst bc)),
                  (''origin_y'', PFloat (snd bc)),
                  (''sign'', PStr ''+''),
                  (''detdist'', PFloat (distance self)),
                  (''osangle'', PFloat (osangle self)),
                  (''rot_x'', PFloat (cos rotation_angle')),
                  (''rot_y'', PFloat (cos (rotation_angle' + pi / 2))),
                  (''rot_z'', PFloat 0)];
               fn = os_path_join pathsmv ''XDS.INP''
           in case fopen_w env fn fs of
                Inl e \<Rightarrow> (Some e, fs)
              | Inr fs0 \<Rightarrow> (None, fwrite fn s fs0)))"

section \<open>A concrete run\<close>

text \<open>
  A small world in which the definitions above can be evaluated: three 2\<times>2 frames, a
  pixel-size table with three camera lengths, collaborators that return their input, and
  a \<^verbatim>\<open>write_tiff\<close> that rejects an empty image whatever the file name is.
\<close>

definition ex_env :: "(nat, 16 word) env" where
  "ex_env = \<lparr>
     curdir = ''/cred'',
     diffraction_pixeldimensions = [150 \<mapsto> 0.00412, 200 \<mapsto> 1, 250 \<mapsto> 0],
     read_tiff = (\<lambda>fn. if fn = ''/cred/flatfield.tiff'' then Inr ([[1]], []) else Inl (IOError fn)),
     write_tiff = (\<lambda>fn img h fs.
        if img = [] then (Some (ValueError ''empty image''), fs) else (None, fs(fn \<mapsto> ''TIFF''))),
     write_adsc = (\<lambda>fn img h fs. (None, fs(fn \<mapsto> ''SMV''))),
     apply_flatfield_correction = (\<lambda>img ff. img),
     apply_stretch_correction = (\<lambda>img c azimuth amplitude. img),
     find_beam_center = (\<lambda>img sigma. (100, 120)),
     XDS_template_format = (\<lambda>kw. concat (map (\<lambda>(k, v). k @ '';'') kw)),
     np_ushort = of_nat,
     np_int16 = of_nat,
     pixel_bytes = (\<lambda>w. [char_of (unat w), char_of (unat (drop_bit 8 w))]),
     str_format = (\<lambda>x. if x = 10 then ''10.0'' else if x = 10.5 then ''10.5''
                        else if x = 11 then ''11.0'' else ''?''),
     format_2f = (\<lambda>x. ''?''),
     py_str = (\<lambda>v. ''?''),
     can_open = (\<lambda>fn. True) \<rparr>"

definition ex_buffer :: "(nat image \<times> header) list" where
  "ex_buffer =
     [([[1, 2], [3, 4]], [(''ImageExposureTime'', PFloat 0.5)]),
      ([[5, 6], [7, 8]], [(''ImageExposureTime'', PFloat 0.5)]),
      ([[9, 10], [11, 12]], [(''ImageExposureTime'', PFloat 0.5)])]"

definition ex_self :: "nat ImgConversion" where
  "ex_self = \<lparr>
     pxd = diffraction_pixeldimensions ex_env,
     flatfield = [[1]],
     mrc_header = MRC_HEADER,
     headers = map snd ex_buffer,
     data = map fst ex_buffer,
     pixelsize = 0.00412,
     physical_pixelsize = 0.055,
     wavelength = 0.025080,
     beam_center = xy 100 120,
     distance = 483.89,
     osangle = 0.5,
     startangle = 10,
     endangle = 11.5,
     rotation_angle = 0,
     dmax = 20,
     dmin = 0.8 \<rparr>"

definition ex_bad :: "nat ImgConversion" where
  "ex_bad = ex_self \<lparr> data := [[[1, 2], [3, 4]], []], headers := [[], []] \<rparr>"

text \<open>A 516\<times>516 frame, already cast, whose pixel at row \<open>r\<close> and column \<open>c\<close> is \<open>r + c\<close>.\<close>

definition ex_frame516 :: "16 word image" where
  "ex_frame516 = map (\<lambda>r. map (\<lambda>c. of_nat (r + c)) [0 ..< 516]) [0 ..< 516]"


definition ex_run :: "(nat image \<times> header) list \<times> (error + nat ImgConversion)" where
  "ex_run = init ex_env ex_buffer 150 0.5 10 11.5 0 (20, 0.8) ''flatfield.tiff''"

section \<open>The concrete run, evaluated\<close>

lemma ex_run: "ex_run = ([], Inr ex_self)"
  by (simp add: ex_run_def init_def ex_env_def ex_buffer_def ex_self_def os_path_join_def
      get_average_beam_center_def np_mean_axis0_def)

lemma ex_read: "read_tiff ex_env (os_path_join (curdir ex_env) ''flatfield.tiff'') = Inr ([[1]], [])"
  by (simp add: ex_env_def os_path_join_def)

lemma ex_pxd:
  "diffraction_pixeldimensions ex_env 150 = Some 0.00412"
  "diffraction_pixeldimensions ex_env 200 = Some 1"
  "diffraction_pixeldimensions ex_env 250 = Some 0"
  "diffraction_pixeldimensions ex_env 300 = None"
  by (simp_all add: ex_env_def)


lemma ex_can_open: "can_open ex_env fn"
  by (simp add: ex_env_def)

lemma ex_write_tiff:
  "write_tiff ex_env fn img h fs =
     (if img = [] then (Some (ValueError ''empty image''), fs) else (None, fs(fn \<mapsto> ''TIFF'')))"
  by (simp add: ex_env_def)

lemma tiff_name_1: "os_path_join ''out'' (format_05d (0 + 1) @ ''.tiff'') = ''out/00001.tiff''"
proof -
  have "format_05d (0 + 1) = ''00001''" by code_simp
  then show ?thesis by (simp add: os_path_join_def)
qed

lemma tiff_name_2: "os_path_join ''out'' (format_05d (1 + 1) @ ''.tiff'') = ''out/00002.tiff''"
proof -
  have "format_05d (1 + 1) = ''00002''" by code_simp
  then show ?thesis by (simp add: os_path_join_def)
qed

section \<open>File names\<close>

lemma digit_val_digit_char: "d < 10 \<Longrightarrow> digit_val (digit_char d) = d"
proof -
  assume "d < 10"
  then have "d \<in> {0, 1, 2, 3, 4, 5, 6, 7, 8, 9}" by auto
  then show ?thesis
    by (auto simp: digit_char_def digit_val_def)
qed

lemma digit_char_mem: "d < 10 \<Longrightarrow> digit_char d \<in> set ''0123456789''"
  unfolding digit_char_def by (rule nth_mem) simp

lemma undec_snoc: "undec (s @ [c]) = 10 * undec s + digit_val c"
  by (simp add: undec_def)

lemma undec_dec: "undec (dec n) = n"
proof (induction n rule: dec.induct)
  case (1 n)
  show ?case
  proof (cases "n < 10")
    case True
    then show ?thesis
      by (subst dec.simps) (simp add: undec_def digit_val_digit_char)
  next
    case False
    with 1 show ?thesis
      by (subst dec.simps) (simp add: undec_snoc digit_val_digit_char)
  qed
qed

lemma undec_zeros: "undec (replicate k (CHR ''0'') @ s) = undec s"
proof -
  have "foldl (\<lambda>a c. 10 * a + digit_val c) 0 (replicate k (CHR ''0'')) = 0"
    by (induction k) (simp_all add: digit_val_def)
  then show ?thesis by (simp add: undec_def)
qed

lemma undec_format_05d: "undec (format_05d j) = j"
  by (simp add: format_05d_def undec_zeros undec_dec)

lemma format_05d_inj: "format_05d i = format_05d k \<Longrightarrow> i = k"
  by (metis undec_format_05d)

lemma dec_digits: "dec n \<noteq> [] \<and> set (dec n) \<subseteq> set ''0123456789''"
proof (induction n rule: dec.induct)
  case (1 n)
  show ?case
  proof (cases "n < 10")
    case True
    with digit_char_mem [of n] show ?thesis
      by (subst (1 2) dec.simps) simp
  next
    case False
    with 1 digit_char_mem [of "n mod 10"] show ?thesis
      by (subst (1 2) dec.simps) simp
  qed
qed

lemma format_05d_head: "format_05d j \<noteq> [] \<and> hd (format_05d j) \<noteq> CHR ''/''"
proof -
  have ne: "format_05d j \<noteq> []"
    using dec_digits [of j] by (simp add: format_05d_def)
  have "set (format_05d j) \<subseteq> set ''0123456789''"
    using dec_digits [of j] by (auto simp: format_05d_def)
  with ne have "hd (format_05d j) \<in> set ''0123456789''"
    using hd_in_set by blast
  with ne show ?thesis by auto
qed

lemma img_name_inj:
  assumes "os_path_join path (format_05d i @ ''.img'') = os_path_join path (format_05d k @ ''.img'')"
  shows "i = k"
proof -
  have "format_05d i @ ''.img'' = format_05d k @ ''.img''"
    using assms format_05d_head [of i] format_05d_head [of k]
    by (simp add: os_path_join_def split: if_splits)
  then show ?thesis by (simp add: format_05d_inj)
qed

section \<open>Frame store construction\<close>

lemma drain_eq:
  "drain env ff buffer hs ds =
     ([], hs @ map snd buffer, ds @ map (\<lambda>(img, h). apply_flatfield_correction env img ff) buffer)"
  by (induction buffer arbitrary: hs ds) auto

lemma init_Inr:
  assumes "init env buffer cl os sa ea ra rr ffn = (buffer', Inr self)"
  shows "buffer' = []"
    and "headers self = map snd buffer"
    and "data self = map (\<lambda>(img, h). apply_flatfield_correction env img (flatfield self)) buffer"
    and "mrc_header self = MRC_HEADER"
    and "beam_center self = get_average_beam_center env (data self)"
  using assms
  by (auto simp: init_def drain_eq split: sum.splits option.splits if_splits prod.splits)

lemma init_ok:
  assumes "read_tiff env (os_path_join (curdir env) ffn) = Inr (ff, h)"
    and "diffraction_pixeldimensions env cl = Some ps" and "ps \<noteq> 0"
  shows "init env buffer cl os sa ea ra rr ffn =
    ([], Inr \<lparr>
       pxd = diffraction_pixeldimensions env,
       flatfield = ff,
       mrc_header = MRC_HEADER,
       headers = map snd buffer,
       data = map (\<lambda>(img, h). apply_flatfield_correction env img ff) buffer,
       pixelsize = ps,
       physical_pixelsize = 0.055,
       wavelength = 0.025080,
       beam_center = get_average_beam_center env
         (map (\<lambda>(img, h). apply_flatfield_correction env img ff) buffer),
       distance = 483.89 * 0.00412 / ps,
       osangle = os,
       startangle = sa,
       endangle = ea,
       rotation_angle = ra,
       dmax = fst rr,
       dmin = snd rr \<rparr>)"
  using assms by (simp add: init_def drain_eq)

text \<open>
  C2. When the flatfield can be read and the table entry of the camera length is not
  zero, the constructor returns an instance for every buffer of \<open>N\<close> pairs: the caller's
  buffer is left empty, \<open>data\<close> and \<open>headers\<close> of the instance have exactly \<open>N\<close> entries,
  and entry \<open>i\<close> is the flatfield-corrected image of the \<open>i\<close>-th pair, respectively its
  header, in acquisition order. Conversely, every instance the constructor returns has
  these properties.
\<close>

theorem init_drains_buffer:
  "(read_tiff env (os_path_join (curdir env) ffn) = Inr (ff, h)
      \<and> diffraction_pixeldimensions env cl = Some ps \<and> ps \<noteq> 0 \<longrightarrow>
      fst (init env buffer cl os sa ea ra rr ffn) = []
    \<and> \<not> isl (snd (init env buffer cl os sa ea ra rr ffn))
    \<and> length (data (projr (snd (init env buffer cl os sa ea ra rr ffn)))) = length buffer
    \<and> length (headers (projr (snd (init env buffer cl os sa ea ra rr ffn)))) = length buffer
    \<and> (\<forall>i < length buffer.
          data (projr (snd (init env buffer cl os sa ea ra rr ffn))) ! i
            = apply_flatfield_correction env (fst (buffer ! i)) ff
        \<and> headers (projr (snd (init env buffer cl os sa ea ra rr ffn))) ! i = snd (buffer ! i)))
   \<and> (init env buffer cl os sa ea ra rr ffn = (buffer', Inr self) \<longrightarrow>
      buffer' = [] \<and> length (data self) = length buffer \<and> length (headers self) = length buffer
    \<and> (\<forall>i < length buffer.
          data self ! i = apply_flatfield_correction env (fst (buffer ! i)) (flatfield self)
        \<and> headers self ! i = snd (buffer ! i)))"
proof (intro conjI impI)
  assume "read_tiff env (os_path_join (curdir env) ffn) = Inr (ff, h)
      \<and> diffraction_pixeldimensions env cl = Some ps \<and> ps \<noteq> 0"
  then have ok: "read_tiff env (os_path_join (curdir env) ffn) = Inr (ff, h)"
    "diffraction_pixeldimensions env cl = Some ps" "ps \<noteq> 0"
    by simp_all
  note eq = init_ok [OF ok, of buffer os sa ea ra rr]
  show "fst (init env buffer cl os sa ea ra rr ffn) = []"
    and "\<not> isl (snd (init env buffer cl os sa ea ra rr ffn))"
    and "length (data (projr (snd (init env buffer cl os sa ea ra rr ffn)))) = length buffer"
    and "length (headers (projr (snd (init env buffer cl os sa ea ra rr ffn)))) = length buffer"
    and "\<forall>i < length buffer.
          data (projr (snd (init env buffer cl os sa ea ra rr ffn))) ! i
            = apply_flatfield_correction env (fst (buffer ! i)) ff
        \<and> headers (projr (snd (init env buffer cl os sa ea ra rr ffn))) ! i = snd (buffer ! i)"
    by (simp_all add: eq case_prod_unfold)
next
  assume a: "init env buffer cl os sa ea ra rr ffn = (buffer', Inr self)"
  from init_Inr(1,2,3) [OF a]
  show "buffer' = []" and "length (data self) = length buffer"
    and "length (headers self) = length buffer"
    and "\<forall>i < length buffer.
          data self ! i = apply_flatfield_correction env (fst (buffer ! i)) (flatfield self)
        \<and> headers self ! i = snd (buffer ! i)"
    by (simp_all add: case_prod_unfold)
qed

theorem init_drains_buffer_witness:
  "fst ex_run = [] \<and> \<not> isl (snd ex_run)
   \<and> length (data (projr (snd ex_run))) = 3
   \<and> data (projr (snd ex_run)) ! 2 = [[9, 10], [11, 12]]
   \<and> headers (projr (snd ex_run)) ! 2 = [(''ImageExposureTime'', PFloat 0.5)]"
proof -
  have len: "length ex_buffer = 3"
    and last: "ex_buffer ! 2 = ([[9, 10], [11, 12]], [(''ImageExposureTime'', PFloat 0.5)])"
    by (simp_all add: ex_buffer_def)
  have ff: "apply_flatfield_correction ex_env = (\<lambda>img ff. img)"
    by (simp add: ex_env_def)
  have "(0.00412 :: real) \<noteq> 0" by simp
  with init_drains_buffer [where env = ex_env and ffn = "''flatfield.tiff''" and ff = "[[1]]"
      and h = "[]" and cl = 150 and ps = "0.00412" and buffer = ex_buffer and os = "0.5"
      and sa = 10 and ea = "11.5" and ra = 0 and rr = "(20, 0.8)"] ex_read ex_pxd(1)
  have "fst ex_run = [] \<and> \<not> isl (snd ex_run)
    \<and> length (data (projr (snd ex_run))) = length ex_buffer
    \<and> (\<forall>i < length ex_buffer.
          data (projr (snd ex_run)) ! i = apply_flatfield_correction ex_env (fst (ex_buffer ! i)) [[1]]
        \<and> headers (projr (snd ex_run)) ! i = snd (ex_buffer ! i))"
    unfolding ex_run_def by blast
  then show ?thesis
    by (simp add: len last ff)
qed

section \<open>The beam center\<close>






subsection \<open>The mean in binary64\<close>


























section \<open>Geometry\<close>

text \<open>
  C8 (as amended). When the flatfield can be read, the constructor's outcome is decided
  by the table entry of the camera length alone: a missing entry raises \<open>KeyError\<close>, an
  entry equal to 0 raises \<open>ZeroDivisionError\<close> at the division, and every other entry
  \<open>ps\<close> (1.0 included) is accepted, with \<open>distance = 483.89 * 0.00412 / ps\<close>, which is
  strictly positive when \<open>ps\<close> is.
\<close>

theorem distance_from_pixelsize:
  assumes "read_tiff env (os_path_join (curdir env) ffn) = Inr (ff, h)"
  shows "case diffraction_pixeldimensions env cl of
      None \<Rightarrow> snd (init env buffer cl os sa ea ra rr ffn) = Inl (KeyError ''camera_length'')
    | Some ps \<Rightarrow>
        if ps = 0 then snd (init env buffer cl os sa ea ra rr ffn) = Inl ZeroDivisionError
        else \<not> isl (snd (init env buffer cl os sa ea ra rr ffn))
           \<and> pixelsize (projr (snd (init env buffer cl os sa ea ra rr ffn))) = ps
           \<and> distance (projr (snd (init env buffer cl os sa ea ra rr ffn))) = 483.89 * 0.00412 / ps
           \<and> (0 < ps \<longrightarrow> 0 < distance (projr (snd (init env buffer cl os sa ea ra rr ffn))))"
  using assms by (simp add: init_def drain_eq split: option.splits)

theorem distance_from_pixelsize_witness:
  "distance (projr (snd (init ex_env ex_buffer 150 0.5 10 11.5 0 (20, 0.8) ''flatfield.tiff''))) = 483.89
   \<and> 0 < distance (projr (snd (init ex_env ex_buffer 150 0.5 10 11.5 0 (20, 0.8) ''flatfield.tiff'')))
   \<and> snd (init ex_env ex_buffer 250 0.5 10 11.5 0 (20, 0.8) ''flatfield.tiff'') = Inl ZeroDivisionError
   \<and> snd (init ex_env ex_buffer 300 0.5 10 11.5 0 (20, 0.8) ''flatfield.tiff'') = Inl (KeyError ''camera_length'')"
  using distance_from_pixelsize [OF ex_read, where cl = 150 and buffer = ex_buffer and os = "0.5" and sa = 10
      and ea = "11.5" and ra = 0 and rr = "(20, 0.8)"]
    distance_from_pixelsize [OF ex_read, where cl = 250 and buffer = ex_buffer and os = "0.5" and sa = 10
      and ea = "11.5" and ra = 0 and rr = "(20, 0.8)"]
    distance_from_pixelsize [OF ex_read, where cl = 300 and buffer = ex_buffer and os = "0.5" and sa = 10
      and ea = "11.5" and ra = 0 and rr = "(20, 0.8)"]
  by (simp add: ex_pxd)

text \<open>
  C8 as stated fails: a camera length whose pixel size is exactly 1.0 constructs an
  instance, with distance 1.9936268, instead of raising.
\<close>

theorem pixelsize_one_accepted:
  "diffraction_pixeldimensions ex_env 200 = Some 1
   \<and> \<not> isl (snd (init ex_env ex_buffer 200 0.5 10 11.5 0 (20, 0.8) ''flatfield.tiff''))
   \<and> distance (projr (snd (init ex_env ex_buffer 200 0.5 10 11.5 0 (20, 0.8) ''flatfield.tiff''))) = 1.9936268"
  by (simp add: init_def ex_read ex_pxd drain_eq)

section \<open>The TIFF encoder\<close>

lemma writeTiff_loop_fails_at:
  assumes "k < length frames"
    and "writeTiff_loop env path i (take k frames) fs = (None, fs_k)"
    and "write_tiff env (os_path_join path (format_05d (i + k + 1) @ ''.tiff''))
           (fst (frames ! k)) (snd (frames ! k)) fs_k = (Some e, fs')"
  shows "writeTiff_loop env path i frames fs = (Some e, fs')"
  using assms
proof (induction frames arbitrary: i k fs)
  case Nil
  then show ?case by simp
next
  case (Cons f frames)
  obtain img h where f: "f = (img, h)" by (cases f)
  show ?case
  proof (cases k)
    case 0
    with Cons.prems f show ?thesis by simp
  next
    case (Suc k')
    from Cons.prems(2) Suc f obtain fs1 where
      w: "write_tiff env (os_path_join path (format_05d (i + 1) @ ''.tiff'')) img h fs = (None, fs1)"
      and rest: "writeTiff_loop env path (i + 1) (take k' frames) fs1 = (None, fs_k)"
      by (auto simp: Let_def split: prod.splits option.splits)
    from Cons.prems(1,3) Suc have "k' < length frames"
      and "write_tiff env (os_path_join path (format_05d ((i + 1) + k' + 1) @ ''.tiff''))
           (fst (frames ! k')) (snd (frames ! k')) fs_k = (Some e, fs')"
      by simp_all
    from Cons.IH [OF this(1) rest this(2)] w f show ?thesis
      by (simp add: Let_def)
  qed
qed

lemma tiff_name_inj:
  assumes "os_path_join path (format_05d i @ ''.tiff'') = os_path_join path (format_05d k @ ''.tiff'')"
  shows "i = k"
proof -
  have "format_05d i @ ''.tiff'' = format_05d k @ ''.tiff''"
    using assms format_05d_head [of i] format_05d_head [of k]
    by (simp add: os_path_join_def split: if_splits)
  then show ?thesis by (simp add: format_05d_inj)
qed

lemma writeTiff_loop_append:
  "writeTiff_loop env path i (xs @ ys) fs =
     (case writeTiff_loop env path i xs fs of
        (Some e, fs1) \<Rightarrow> (Some e, fs1)
      | (None, fs1) \<Rightarrow> writeTiff_loop env path (i + length xs) ys fs1)"
proof (induction xs arbitrary: i fs)
  case Nil
  then show ?case by simp
next
  case (Cons f xs)
  obtain img h where f: "f = (img, h)" by (cases f)
  show ?case
    using Cons.IH [of "i + 1"]
    by (simp add: f Let_def split: prod.splits option.splits)
qed

lemma writeTiff_loop_untouched:
  assumes frame: "\<forall>fn img h fs fn'. fn' \<noteq> fn \<longrightarrow> snd (write_tiff env fn img h fs) fn' = fs fn'"
    and "\<forall>j < length frames. fn \<noteq> os_path_join path (format_05d (i + j + 1) @ ''.tiff'')"
  shows "snd (writeTiff_loop env path i frames fs) fn = fs fn"
  using assms(2)
proof (induction frames arbitrary: i fs)
  case Nil
  then show ?case by simp
next
  case (Cons f frames)
  obtain img h where f: "f = (img, h)" by (cases f)
  let ?fn = "os_path_join path (format_05d (i + 1) @ ''.tiff'')"
  obtain r fs1 where w: "write_tiff env ?fn img h fs = (r, fs1)"
    by (cases "write_tiff env ?fn img h fs")
  from Cons.prems have "fn \<noteq> ?fn" by auto
  with frame w have fs1: "fs1 fn = fs fn"
    by (metis snd_conv)
  from Cons.prems
  have "\<forall>j < length frames. fn \<noteq> os_path_join path (format_05d ((i + 1) + j + 1) @ ''.tiff'')"
    by auto
  from Cons.IH [OF this, of fs1] w fs1 show ?case
    by (cases r) (simp_all add: f Let_def)
qed

text \<open>
  C9 (as amended). If \<^verbatim>\<open>write_tiff\<close> succeeds on the frames before index \<open>k\<close> and raises
  on frame \<open>k\<close>, then \<^verbatim>\<open>writeTiff\<close> raises that very exception, unchanged, and the file
  system is the one the failing call left: no later frame is attempted and no frame
  index is added to the report. Frames already written are not corrupted: provided
  \<^verbatim>\<open>write_tiff\<close> changes no file but the one it is given, the file of every frame \<open>i < k\<close>
  is exactly what the call for frame \<open>i\<close> wrote (distinct frames have distinct file
  names), and every file that is not a target of the frames \<open>0..k\<close> is as it was before.
\<close>

theorem writeTiff_propagates_error:
  assumes "k < length (data self)" and "k < length (headers self)"
    and "writeTiff env (self \<lparr> data := take k (data self), headers := take k (headers self) \<rparr>)
           path fs = (None, fs_k)"
    and "write_tiff env (os_path_join path (format_05d (k + 1) @ ''.tiff''))
           (data self ! k) (headers self ! k) fs_k = (Some e, fs')"
  shows "writeTiff env self path fs = (Some e, fs')
    \<and> ((\<forall>fn img h fs fn'. fn' \<noteq> fn \<longrightarrow> snd (write_tiff env fn img h fs) fn' = fs fn') \<longrightarrow>
        (\<forall>i < k. fs' (os_path_join path (format_05d (i + 1) @ ''.tiff'')) =
            snd (write_tiff env (os_path_join path (format_05d (i + 1) @ ''.tiff''))
                   (data self ! i) (headers self ! i)
                   (snd (writeTiff env
                           (self \<lparr> data := take i (data self), headers := take i (headers self) \<rparr>)
                           path fs)))
              (os_path_join path (format_05d (i + 1) @ ''.tiff'')))
      \<and> (\<forall>fn. (\<forall>i \<le> k. fn \<noteq> os_path_join path (format_05d (i + 1) @ ''.tiff'')) \<longrightarrow> fs' fn = fs fn))"
proof (intro conjI impI allI)
  let ?frames = "zip (data self) (headers self)"
  let ?name = "\<lambda>i. os_path_join path (format_05d (i + 1) @ ''.tiff'')"
  have k: "k < length ?frames" using assms(1,2) by simp
  have pre: "writeTiff_loop env path 0 (take k ?frames) fs = (None, fs_k)"
    using assms(3) by (simp add: writeTiff_def take_zip)
  have fail: "write_tiff env (os_path_join path (format_05d (0 + k + 1) @ ''.tiff''))
           (fst (?frames ! k)) (snd (?frames ! k)) fs_k = (Some e, fs')"
    using assms by simp
  show "writeTiff env self path fs = (Some e, fs')"
    unfolding writeTiff_def using k pre fail by (rule writeTiff_loop_fails_at)
  {
    assume frame: "\<forall>fn img h fs fn'. fn' \<noteq> fn \<longrightarrow> snd (write_tiff env fn img h fs) fn' = fs fn'"
    have after: "fs' fn = fs_k fn" if "fn \<noteq> ?name k" for fn
      using frame that assms(4) by (metis snd_conv)
    {
      fix i assume i: "i < k"
      let ?rest = "drop (Suc i) (take k ?frames)"
      have split: "take k ?frames = take i ?frames @ (?frames ! i) # ?rest"
        using id_take_nth_drop [of i "take k ?frames"] i k by (simp add: min_def)
      obtain r1 s1 where l1: "writeTiff_loop env path 0 (take i ?frames) fs = (r1, s1)"
        by (cases "writeTiff_loop env path 0 (take i ?frames) fs")
      have len_i: "length (take i ?frames) = i"
        using i k by simp
      have "writeTiff_loop env path 0 (take i ?frames @ (?frames ! i) # ?rest) fs = (None, fs_k)"
        using pre by (subst split [symmetric])
      then have "(case writeTiff_loop env path 0 (take i ?frames) fs of
            (Some e, fs1) \<Rightarrow> (Some e, fs1)
          | (None, fs1) \<Rightarrow> writeTiff_loop env path (0 + length (take i ?frames)) ((?frames ! i) # ?rest) fs1)
          = (None, fs_k)"
        by (simp only: writeTiff_loop_append)
      with l1 len_i have r1: "r1 = None"
        and l2: "writeTiff_loop env path i ((?frames ! i) # ?rest) s1 = (None, fs_k)"
        by (cases r1; simp)+
      have fi: "?frames ! i = (data self ! i, headers self ! i)"
        using i assms(1,2) by simp
      obtain r2 s2 where w: "write_tiff env (?name i) (data self ! i) (headers self ! i) s1 = (r2, s2)"
        by (cases "write_tiff env (?name i) (data self ! i) (headers self ! i) s1")
      from l2 w have r2: "r2 = None" and l3: "writeTiff_loop env path (i + 1) ?rest s2 = (None, fs_k)"
        by (cases r2; simp add: fi Let_def)+
      have "\<forall>j < length ?rest. ?name i \<noteq> os_path_join path (format_05d ((i + 1) + j + 1) @ ''.tiff'')"
        using tiff_name_inj [of path "i + 1"] by fastforce
      from writeTiff_loop_untouched [OF frame this, of s2]
      have "snd (writeTiff_loop env path (i + 1) ?rest s2) (?name i) = s2 (?name i)" .
      with l3 have "fs_k (?name i) = s2 (?name i)" by simp
      moreover have "?name i \<noteq> ?name k"
        using tiff_name_inj [of path "i + 1" "k + 1"] i by auto
      ultimately have "fs' (?name i) = s2 (?name i)"
        using after by simp
      moreover have "snd (writeTiff env
              (self \<lparr> data := take i (data self), headers := take i (headers self) \<rparr>) path fs) = s1"
        using l1 by (simp add: writeTiff_def take_zip)
      ultimately have "fs' (?name i) =
            snd (write_tiff env (?name i) (data self ! i) (headers self ! i)
                   (snd (writeTiff env
                           (self \<lparr> data := take i (data self), headers := take i (headers self) \<rparr>)
                           path fs)))
              (?name i)"
        using w by simp
    }
    note before = this
    {
      fix fn assume fn: "\<forall>i \<le> k. fn \<noteq> ?name i"
      then have "fn \<noteq> ?name k" by simp
      then have "fs' fn = fs_k fn" by (rule after)
      moreover have "\<forall>j < length (take k ?frames). fn \<noteq> os_path_join path (format_05d (0 + j + 1) @ ''.tiff'')"
        using fn by simp
      from writeTiff_loop_untouched [OF frame this, of fs] pre have "fs_k fn = fs fn"
        by simp
      ultimately have "fs' fn = fs fn" by simp
    }
    note other = this
    note before other
  }
  note part2 = this
  show "fs' (os_path_join path (format_05d (i + 1) @ ''.tiff'')) =
            snd (write_tiff env (os_path_join path (format_05d (i + 1) @ ''.tiff''))
                   (data self ! i) (headers self ! i)
                   (snd (writeTiff env
                           (self \<lparr> data := take i (data self), headers := take i (headers self) \<rparr>)
                           path fs)))
              (os_path_join path (format_05d (i + 1) @ ''.tiff''))"
    if "\<forall>fn img h fs fn'. fn' \<noteq> fn \<longrightarrow> snd (write_tiff env fn img h fs) fn' = fs fn'" and "i < k" for i
    using part2(1) [OF that] .
  show "fs' fn = fs fn"
    if "\<forall>fn img h fs fn'. fn' \<noteq> fn \<longrightarrow> snd (write_tiff env fn img h fs) fn' = fs fn'"
      and "\<forall>i \<le> k. fn \<noteq> os_path_join path (format_05d (i + 1) @ ''.tiff'')" for fn
    using part2(2) [OF that] .
qed

theorem writeTiff_propagates_error_witness:
  "writeTiff ex_env ex_bad ''out'' Map.empty =
     (Some (ValueError ''empty image''), [''out/00001.tiff'' \<mapsto> ''TIFF''])
   \<and> snd (writeTiff ex_env ex_bad ''out'' Map.empty) ''out/00001.tiff'' = Some ''TIFF''
   \<and> snd (writeTiff ex_env ex_bad ''out'' Map.empty) ''out/00002.tiff'' = None
   \<and> snd (writeTiff ex_env ex_bad ''out'' Map.empty) ''out/XDS.INP'' = None"
proof -
  let ?fs1 = "[''out/00001.tiff'' \<mapsto> ''TIFF'']"
  have d: "data ex_bad = [[[1, 2], [3, 4]], []]" and h: "headers ex_bad = [[], []]"
    by (simp_all add: ex_bad_def)
  have 1: "1 < length (data ex_bad)" and 2: "1 < length (headers ex_bad)"
    by (simp_all add: d h)
  have 3: "writeTiff ex_env (ex_bad \<lparr> data := take 1 (data ex_bad), headers := take 1 (headers ex_bad) \<rparr>)
      ''out'' Map.empty = (None, ?fs1)"
    using tiff_name_1 by (simp add: writeTiff_def d h ex_write_tiff)
  have 4: "write_tiff ex_env (os_path_join ''out'' (format_05d (1 + 1) @ ''.tiff''))
      (data ex_bad ! 1) (headers ex_bad ! 1) ?fs1 = (Some (ValueError ''empty image''), ?fs1)"
    by (simp add: d h ex_write_tiff)
  have frame: "\<forall>fn img h fs fn'. fn' \<noteq> fn \<longrightarrow> snd (write_tiff ex_env fn img h fs) fn' = fs fn'"
    by (simp add: ex_write_tiff)
  note inst = writeTiff_propagates_error [OF 1 2 3 4]
  from inst have res: "writeTiff ex_env ex_bad ''out'' Map.empty = (Some (ValueError ''empty image''), ?fs1)"
    by blast
  from inst frame have other: "\<forall>fn. (\<forall>i \<le> 1. fn \<noteq> os_path_join ''out'' (format_05d (i + 1) @ ''.tiff''))
      \<longrightarrow> ?fs1 fn = Map.empty fn"
    by blast
  have "\<forall>i \<le> 1. ''out/XDS.INP'' \<noteq> os_path_join ''out'' (format_05d (i + 1) @ ''.tiff'')"
    by (simp add: os_path_join_def)
  with other have "?fs1 ''out/XDS.INP'' = None"
    by blast
  with res show ?thesis
    by simp
qed

text \<open>
  C9 as stated fails: with a \<^verbatim>\<open>write_tiff\<close> whose exception does not name the file, a
  run that fails on the second frame (the first file exists afterwards) and a run that
  fails on the first frame (no file exists) end with the same report.
\<close>

theorem writeTiff_report_counterexample:
  "fst (writeTiff ex_env (ex_self \<lparr> data := [[[1, 2], [3, 4]], []], headers := [[], []] \<rparr>) ''out'' Map.empty)
     = Some (ValueError ''empty image'')
   \<and> snd (writeTiff ex_env (ex_self \<lparr> data := [[[1, 2], [3, 4]], []], headers := [[], []] \<rparr>) ''out'' Map.empty)
       ''out/00001.tiff'' = Some ''TIFF''
   \<and> fst (writeTiff ex_env (ex_self \<lparr> data := [[]], headers := [[]] \<rparr>) ''out'' Map.empty)
     = Some (ValueError ''empty image'')
   \<and> snd (writeTiff ex_env (ex_self \<lparr> data := [[]], headers := [[]] \<rparr>) ''out'' Map.empty)
       ''out/00001.tiff'' = None"
  using tiff_name_1 tiff_name_2 by (simp add: writeTiff_def ex_write_tiff)

section \<open>The SMV encoder\<close>

text \<open>
  C1 (one \<^verbatim>\<open>.img\<close> file per frame, with the fixed-key header). \<^verbatim>\<open>writeIMG\<close> does not get
  that far: on every instance and every path it raises \<open>AttributeError\<close> at the head of
  its loop, before any frame is looked at, and leaves the file system as it was.
\<close>

theorem writeIMG_raises_AttributeError:
  "writeIMG env self path fs = (Some (AttributeError ''header''), fs)"
  by (simp add: writeIMG_def self_header_def)

lemma length_stretch: "length (stretch n xs) = n"
  by (simp add: stretch_def)

lemma length_np_slice: "length (np_slice rs xs) \<le> length xs - fst rs"
  by (simp add: np_slice_def split: option.splits)

lemma assign_slice2_length:
  assumes "assign_slice2 target rs cs src = Inr out"
  shows "length out = length target"
proof -
  let ?h = "length (np_slice rs target)"
  let ?blk = "stretch ?h (map (stretch (ncols (np_slice2 target rs cs))) src)"
  from assms have out: "out = take (fst rs) target @ map2 (put_row (fst cs)) ?blk (np_slice rs target)
                @ drop (fst rs + ?h) target"
    by (simp add: assign_slice2_def broadcast_to_def Let_def split: sum.splits if_splits)
  have "?h \<le> length target - fst rs"
    by (rule length_np_slice)
  then show ?thesis
    unfolding out by (simp add: length_stretch)
qed

lemma repack_length:
  assumes "length img = 516" and "repack img = Inr out"
  shows "length out = 512"
proof -
  from assms obtain n1 n2 n3 where
    1: "assign_slice2 (np_zeros 512 512) (0, Some 256) (0, Some 256)
          (np_slice2 img (0, Some 256) (0, Some 256)) = Inr n1"
    and 2: "assign_slice2 n1 (256, None) (0, Some 256) (np_slice2 img (260, None) (0, Some 256)) = Inr n2"
    and 3: "assign_slice2 n2 (0, Some 256) (256, None) (np_slice2 img (0, Some 256) (260, None)) = Inr n3"
    and 4: "assign_slice2 n3 (256, None) (256, None) (np_slice2 img (260, None) (260, None)) = Inr out"
    by (auto simp: repack_def split: sum.splits)
  from 1 2 3 4 show ?thesis
    by (simp add: assign_slice2_length np_zeros_def)
qed

lemma repack_other_height: "length img \<noteq> 516 \<Longrightarrow> repack img = Inr img"
  by (simp add: repack_def)

lemma repack_twice: "repack img = Inr out \<Longrightarrow> repack out = Inr out"
proof (cases "length img = 516")
  case True
  assume "repack img = Inr out"
  with True have "length out = 512" by (rule repack_length)
  then show ?thesis by (simp add: repack_other_height)
next
  case False
  assume "repack img = Inr out"
  with False show ?thesis by (simp add: repack_other_height)
qed


lemma ncols_nonempty: "img \<noteq> [] \<Longrightarrow> ncols img = length (hd img)"
  by (cases img) (simp_all add: ncols_def)

lemma broadcast_to_exact:
  assumes "length src = h" and "0 < h" and "\<forall>row \<in> set src. length row = w"
  shows "broadcast_to h w src = Inr src"
proof -
  from assms(1,2) have ne: "src \<noteq> []" by auto
  with assms(3) have "ncols src = w"
    by (simp add: ncols_nonempty)
  moreover have "map (stretch w) src = src"
    using assms(3) by (simp add: stretch_def map_idI)
  ultimately show ?thesis
    using assms(1) by (simp add: broadcast_to_def stretch_def)
qed

lemma assign_slice2_exact:
  assumes "length (np_slice rs target) = h" and "0 < h" and "length src = h"
    and "\<forall>row \<in> set src. length row = w" and "ncols (np_slice2 target rs cs) = w"
  shows "assign_slice2 target rs cs src =
    Inr (take (fst rs) target @ map2 (put_row (fst cs)) src (np_slice rs target)
         @ drop (fst rs + h) target)"
  using assms by (simp add: assign_slice2_def broadcast_to_exact Let_def)

lemma map2_replicate: "length xs = n \<Longrightarrow> map2 f xs (replicate n y) = map (\<lambda>x. f x y) xs"
  by (induction xs arbitrary: n) auto

lemma ncols_map: "xs \<noteq> [] \<Longrightarrow> ncols (map f xs) = length (f (hd xs))"
  by (simp add: ncols_nonempty hd_map)

lemma np_slice_Some: "np_slice (a, Some b) = (\<lambda>xs. take (b - a) (drop a xs))"
  by (rule ext) (simp add: np_slice_def)

lemma np_slice_None: "np_slice (a, None) = drop a"
  by (rule ext) (simp add: np_slice_def)

lemma repack_516:
  assumes len: "length img = 516" and rows: "\<forall>row \<in> set img. length row = 516"
  shows "repack img = Inr (map (\<lambda>row. take 256 row @ drop 260 row) (take 256 img @ drop 260 img))"
proof -
  let ?T = "take 256 img" and ?B = "drop 260 img"
  let ?z = "replicate 256 (0 :: 16 word)"
  let ?g = "\<lambda>row :: 16 word list. take 256 row @ ?z"
  let ?f = "\<lambda>row :: 16 word list. take 256 row @ drop 260 row"
  let ?n1 = "map ?g ?T @ replicate 256 (replicate 512 (0 :: 16 word))"
  let ?n2 = "map ?g ?T @ map ?g ?B"
  let ?n3 = "map ?f ?T @ map ?g ?B"
  let ?n4 = "map ?f ?T @ map ?f ?B"
  have T: "length ?T = 256" "?T \<noteq> []" and B: "length ?B = 256" "?B \<noteq> []"
    using len by auto
  have rowsT: "\<forall>row \<in> set ?T. length row = 516" and rowsB: "\<forall>row \<in> set ?B. length row = 516"
    using rows by (auto dest: in_set_takeD in_set_dropD)
  have hdT: "length (hd ?T) = 516" and hdB: "length (hd ?B) = 516"
    using rowsT rowsB T B by (auto simp del: hd_take hd_drop_conv_nth)
  have srcT: "length (map (take 256) ?T) = 256" "\<forall>row \<in> set (map (take 256) ?T). length row = 256"
    and srcB: "length (map (take 256) ?B) = 256" "\<forall>row \<in> set (map (take 256) ?B). length row = 256"
    and srcT': "length (map (drop 260) ?T) = 256" "\<forall>row \<in> set (map (drop 260) ?T). length row = 256"
    and srcB': "length (map (drop 260) ?B) = 256" "\<forall>row \<in> set (map (drop 260) ?B). length row = 256"
    using T B rowsT rowsB by auto
  have gT: "map (\<lambda>row. put_row 0 (take 256 row) (replicate 512 0)) ?T = map ?g ?T"
    and gB: "map (\<lambda>row. put_row 0 (take 256 row) (replicate 512 0)) ?B = map ?g ?B"
    using rowsT rowsB by (auto simp: put_row_def)
  have fT: "map (\<lambda>row. put_row 256 (drop 260 row) (?g row)) ?T = map ?f ?T"
    and fB: "map (\<lambda>row. put_row 256 (drop 260 row) (?g row)) ?B = map ?f ?B"
    using rowsT rowsB by (auto simp: put_row_def)
  have m1: "map2 (put_row 0) (map (take 256) ?T) (replicate 256 (replicate 512 (0 :: 16 word)))
      = map ?g ?T"
    by (subst map2_replicate [OF srcT(1)]) (simp add: gT comp_def)
  have m2: "map2 (put_row 0) (map (take 256) ?B) (replicate 256 (replicate 512 (0 :: 16 word)))
      = map ?g ?B"
    by (subst map2_replicate [OF srcB(1)]) (simp add: gB comp_def)
  have c3: "ncols (np_slice2 ?n2 (0, Some 256) (256, None)) = 256"
  proof -
    have "np_slice2 ?n2 (0, Some 256) (256, None) = map (\<lambda>row. drop 256 (?g row)) ?T"
      by (simp add: np_slice2_def np_slice_Some np_slice_None len comp_def)
    moreover have "ncols (map (\<lambda>row. drop 256 (?g row)) ?T) = length (drop 256 (?g (hd ?T)))"
      by (rule ncols_map [OF T(2)])
    moreover have "length (drop 256 (?g (hd ?T))) = 256"
      using hdT by simp
    ultimately show ?thesis by simp
  qed
  have c4: "ncols (np_slice2 ?n3 (256, None) (256, None)) = 256"
  proof -
    have "np_slice2 ?n3 (256, None) (256, None) = map (\<lambda>row. drop 256 (?g row)) ?B"
      by (simp add: np_slice2_def np_slice_Some np_slice_None len comp_def)
    moreover have "ncols (map (\<lambda>row. drop 256 (?g row)) ?B) = length (drop 256 (?g (hd ?B)))"
      by (rule ncols_map [OF B(2)])
    moreover have "length (drop 256 (?g (hd ?B))) = 256"
      using hdB by simp
    ultimately show ?thesis by simp
  qed
  have 1: "assign_slice2 (np_zeros 512 512) (0, Some 256) (0, Some 256)
             (np_slice2 img (0, Some 256) (0, Some 256)) = Inr ?n1"
  proof -
    have "assign_slice2 (np_zeros 512 512) (0, Some 256) (0, Some 256) (map (take 256) ?T) =
      Inr (take (fst (0 :: nat, Some (256 :: nat))) (np_zeros 512 512)
           @ map2 (put_row (fst (0 :: nat, Some (256 :: nat)))) (map (take 256) ?T)
               (np_slice (0, Some 256) (np_zeros 512 512))
           @ drop (fst (0 :: nat, Some (256 :: nat)) + 256) (np_zeros 512 512))"
      by (rule assign_slice2_exact [where w = 256, OF _ _ srcT])
        (simp_all add: np_slice_Some np_slice_None np_slice2_def np_zeros_def ncols_nonempty)
    then show ?thesis
      by (simp add: np_slice_Some np_slice_None np_slice2_def np_zeros_def m1)
  qed
  have 2: "assign_slice2 ?n1 (256, None) (0, Some 256)
             (np_slice2 img (260, None) (0, Some 256)) = Inr ?n2"
  proof -
    have "assign_slice2 ?n1 (256, None) (0, Some 256) (map (take 256) ?B) =
      Inr (take (fst (256 :: nat, None :: nat option)) ?n1
           @ map2 (put_row (fst (0 :: nat, Some (256 :: nat)))) (map (take 256) ?B)
               (np_slice (256, None) ?n1)
           @ drop (fst (256 :: nat, None :: nat option) + 256) ?n1)"
      by (rule assign_slice2_exact [where w = 256, OF _ _ srcB])
        (simp_all add: np_slice_Some np_slice_None np_slice2_def ncols_nonempty len)
    then show ?thesis
      by (simp add: np_slice_Some np_slice_None np_slice2_def len m2)
  qed
  have 3: "assign_slice2 ?n2 (0, Some 256) (256, None)
             (np_slice2 img (0, Some 256) (260, None)) = Inr ?n3"
  proof -
    have "assign_slice2 ?n2 (0, Some 256) (256, None) (map (drop 260) ?T) =
      Inr (take (fst (0 :: nat, Some (256 :: nat))) ?n2
           @ map2 (put_row (fst (256 :: nat, None :: nat option))) (map (drop 260) ?T)
               (np_slice (0, Some 256) ?n2)
           @ drop (fst (0 :: nat, Some (256 :: nat)) + 256) ?n2)"
      by (rule assign_slice2_exact [where w = 256, OF _ _ srcT'])
        (simp_all add: c3 np_slice_Some np_slice_None len)
    then show ?thesis
      by (simp add: np_slice_Some np_slice_None np_slice2_def len map2_map_map fT comp_def)
  qed
  have 4: "assign_slice2 ?n3 (256, None) (256, None)
             (np_slice2 img (260, None) (260, None)) = Inr ?n4"
  proof -
    have "assign_slice2 ?n3 (256, None) (256, None) (map (drop 260) ?B) =
      Inr (take (fst (256 :: nat, None :: nat option)) ?n3
           @ map2 (put_row (fst (256 :: nat, None :: nat option))) (map (drop 260) ?B)
               (np_slice (256, None) ?n3)
           @ drop (fst (256 :: nat, None :: nat option) + 256) ?n3)"
      by (rule assign_slice2_exact [where w = 256, OF _ _ srcB'])
        (simp_all add: c4 np_slice_Some np_slice_None len)
    then show ?thesis
      by (simp add: np_slice_Some np_slice_None np_slice2_def len map2_map_map fB comp_def)
  qed
  show ?thesis
    using len by (simp add: repack_def 1 2 3 4)
qed

text \<open>
  C7. The re-packing step of the SMV encoder acts exactly when the image has 516 rows;
  whenever it returns an image, applying it to that image returns it unchanged, because
  a re-packed image has 512 rows. On a 516\<times>516 image it keeps rows and columns 0 to 255
  and 260 to 515, that is, it drops rows and columns 256 to 259.
\<close>

theorem repack_idempotent:
  "(length img \<noteq> 516 \<longrightarrow> repack img = Inr img)
   \<and> (repack img = Inr out \<longrightarrow> repack out = Inr out)
   \<and> (length img = 516 \<and> repack img = Inr out \<longrightarrow> length out = 512)
   \<and> (length img = 516 \<and> (\<forall>row \<in> set img. length row = 516) \<longrightarrow>
        repack img = Inr (map (\<lambda>row. take 256 row @ drop 260 row) (take 256 img @ drop 260 img)))"
  using repack_other_height [of img] repack_twice [of img out] repack_length [of img out]
    repack_516 [of img]
  by blast

theorem repack_idempotent_witness:
  "length (projr (repack ex_frame516)) = 512
   \<and> repack (projr (repack ex_frame516)) = repack ex_frame516
   \<and> projr (repack ex_frame516) ! 300 ! 10 = 314
   \<and> projr (repack ex_frame516) ! 300 ! 300 = 608"
proof -
  let ?out = "map (\<lambda>row. take 256 row @ drop 260 row) (take 256 ex_frame516 @ drop 260 ex_frame516)"
  have len: "length ex_frame516 = 516" and rows: "\<forall>row \<in> set ex_frame516. length row = 516"
    by (auto simp: ex_frame516_def)
  note inst = repack_idempotent [of ex_frame516 ?out]
  from inst len rows have r: "repack ex_frame516 = Inr ?out"
    by blast
  with inst have again: "repack ?out = Inr ?out" and l: "length ?out = 512"
    using len by blast+
  have row: "?out ! 300 = take 256 (ex_frame516 ! 304) @ drop 260 (ex_frame516 ! 304)"
    using len by (simp add: nth_append)
  have src: "ex_frame516 ! 304 = map (\<lambda>c. of_nat (304 + c)) [0 ..< 516]"
    by (simp add: ex_frame516_def)
  have "?out ! 300 ! 10 = 314" and "?out ! 300 ! 300 = 608"
    unfolding row src by (simp_all add: nth_append)
  with r again l show ?thesis
    by simp
qed

section \<open>Distortion correction\<close>

lemma fixDistortion_xy:
  "fixDistortion env img (xy x y) =
     Inr (apply_stretch_correction env img
            (x + (if x > 255 then 1 else 0) + (if x > 256 then 2 else 0) + (if x > 257 then 1 else 0),
             y + (if y > 255 then 1 else 0) + (if y > 256 then 2 else 0) + (if y > 257 then 1 else 0))
            (- 6.61) 2.43)"
  by (simp add: fixDistortion_def components_def Let_def)

lemma ex_fixDistortion: "fixDistortion ex_env img (xy 100 120) = Inr img"
  by (simp add: fixDistortion_xy) (simp add: ex_env_def)

text \<open>
  C4. \<^verbatim>\<open>fixDistortion\<close> passes to the stretch correction the center whose two
  components are adjusted independently and cumulatively (plus 1 above 255, plus 2 more
  above 256, plus 1 more above 257), always with azimuth -6.61 and amplitude 2.43; the
  center (100, 120) is passed on unchanged.
\<close>

theorem fixDistortion_center:
  "fixDistortion env img (xy x y) =
     Inr (apply_stretch_correction env img
            (x + (if x > 255 then 1 else 0) + (if x > 256 then 2 else 0) + (if x > 257 then 1 else 0),
             y + (if y > 255 then 1 else 0) + (if y > 256 then 2 else 0) + (if y > 257 then 1 else 0))
            (- 6.61) 2.43)
   \<and> fixDistortion env img (xy 100 120) =
     Inr (apply_stretch_correction env img (100, 120) (- 6.61) 2.43)"
  by (simp add: fixDistortion_def components_def Let_def)

theorem fixDistortion_center_witness:
  "fixDistortion ex_env [[1, 2], [3, 4]] (xy 255.5 300) = Inr [[1, 2], [3, 4]]
   \<and> fixDistortion ex_env [[1, 2], [3, 4]] (xy 255.5 300)
       = Inr (apply_stretch_correction ex_env [[1, 2], [3, 4]] (256.5, 304) (- 6.61) 2.43)"
proof -
  have "apply_stretch_correction ex_env = (\<lambda>img c azimuth amplitude. img)"
    by (simp add: ex_env_def)
  with fixDistortion_center [of ex_env "[[1, 2], [3, 4]]" "255.5" 300] show ?thesis
    by simp
qed

section \<open>The MRC encoder\<close>

lemma MRCCreator_loop_files:
  assumes "beam_center self = xy x y"
    and "\<forall>k < length ds. can_open env (os_path_join path (format_05d (i + k + 1) @ ''.img''))"
  shows "fst (MRCCreator_loop env self path i ds fs) = None
    \<and> (\<forall>k < length ds.
          snd (MRCCreator_loop env self path i ds fs) (os_path_join path (format_05d (i + k + 1) @ ''.img''))
          = Some (mrc_header self
                  @ tobytes env (projr (fixDistortion env (rev (map (map (np_int16 env)) (ds ! k))) (xy x y)))))
    \<and> (\<forall>fn. (\<forall>k < length ds. fn \<noteq> os_path_join path (format_05d (i + k + 1) @ ''.img''))
          \<longrightarrow> snd (MRCCreator_loop env self path i ds fs) fn = fs fn)"
  using assms(2)
proof (induction ds arbitrary: i fs)
  case Nil
  then show ?case by simp
next
  case (Cons img rest)
  let ?fn = "os_path_join path (format_05d (i + 1) @ ''.img'')"
  let ?img2 = "projr (fixDistortion env (rev (map (map (np_int16 env)) img)) (xy x y))"
  let ?fs3 = "fs(?fn \<mapsto> mrc_header self @ tobytes env ?img2)"
  have open_fn: "can_open env ?fn"
    using Cons.prems by auto
  have step: "MRCCreator_loop env self path i (img # rest) fs
      = MRCCreator_loop env self path (i + 1) rest ?fs3"
    using open_fn by (simp add: assms(1) fixDistortion_xy fopen_w_def fwrite_def Let_def)
  have "\<forall>k < length rest. can_open env (os_path_join path (format_05d ((i + 1) + k + 1) @ ''.img''))"
    using Cons.prems by auto
  note IH = Cons.IH [OF this, of ?fs3]
  have other: "?fn \<noteq> os_path_join path (format_05d ((i + 1) + k + 1) @ ''.img'')" for k
    using img_name_inj [of path "i + 1" "(i + 1) + k + 1"] by auto
  show ?case
  proof (intro conjI allI impI)
    show "fst (MRCCreator_loop env self path i (img # rest) fs) = None"
      using IH by (simp only: step)
  next
    fix k assume k: "k < length (img # rest)"
    show "snd (MRCCreator_loop env self path i (img # rest) fs)
            (os_path_join path (format_05d (i + k + 1) @ ''.img''))
          = Some (mrc_header self
                  @ tobytes env (projr (fixDistortion env (rev (map (map (np_int16 env)) ((img # rest) ! k))) (xy x y))))"
    proof (cases k)
      case 0
      have "snd (MRCCreator_loop env self path (i + 1) rest ?fs3) ?fn = ?fs3 ?fn"
        using IH other by blast
      with 0 show ?thesis by (simp only: step) simp
    next
      case (Suc k')
      with k have "k' < length rest" by simp
      with IH have "snd (MRCCreator_loop env self path (i + 1) rest ?fs3)
            (os_path_join path (format_05d ((i + 1) + k' + 1) @ ''.img''))
          = Some (mrc_header self
                  @ tobytes env (projr (fixDistortion env (rev (map (map (np_int16 env)) (rest ! k'))) (xy x y))))"
        by blast
      with Suc show ?thesis by (simp only: step) (simp add: add.commute add.left_commute)
    qed
  next
    fix fn assume fn: "\<forall>k < length (img # rest). fn \<noteq> os_path_join path (format_05d (i + k + 1) @ ''.img'')"
    from fn have "fn \<noteq> ?fn" by auto
    moreover from fn have "\<forall>k < length rest. fn \<noteq> os_path_join path (format_05d ((i + 1) + k + 1) @ ''.img'')"
      by auto
    ultimately show "snd (MRCCreator_loop env self path i (img # rest) fs) fn = fs fn"
      using IH by (simp only: step) simp
  qed
qed

lemma length_MRC_HEADER: "length MRC_HEADER = 1024"
  by (simp add: MRC_HEADER_def)

text \<open>
  C6. For an instance returned by the constructor, when the target files can be opened,
  \<^verbatim>\<open>MRCCreator\<close> returns normally and the file named by the 1-based, zero-padded index of
  frame \<open>i\<close> with extension \<^verbatim>\<open>.img\<close> holds the constant header, which has exactly 1024
  bytes, followed by the pixels, row after row, of the array that \<^verbatim>\<open>fixDistortion\<close>
  returns for the frame cast to 16 bits with its rows reversed and the one beam center
  of the instance.
\<close>

theorem MRCCreator_files:
  assumes "init env buffer cl os sa ea ra rr ffn = (buffer', Inr self)"
    and "\<forall>i < length buffer. can_open env (os_path_join path (format_05d (i + 1) @ ''.img''))"
  shows "fst (MRCCreator env self path fs) = None
    \<and> mrc_header self = MRC_HEADER \<and> length (mrc_header self) = 1024
    \<and> (\<forall>i < length buffer. \<exists>img2.
          fixDistortion env (rev (map (map (np_int16 env)) (data self ! i))) (beam_center self) = Inr img2
        \<and> snd (MRCCreator env self path fs) (os_path_join path (format_05d (i + 1) @ ''.img''))
          = Some (mrc_header self @ concat (map (\<lambda>row. concat (map (pixel_bytes env) row)) img2)))"
proof (cases "buffer = []")
  case True
  with init_Inr(3,4) [OF assms(1)] show ?thesis
    by (simp add: MRCCreator_def length_MRC_HEADER)
next
  case False
  have len: "length (data self) = length buffer"
    using init_Inr(3) [OF assms(1)] by simp
  from False obtain x y where bc: "beam_center self = xy x y"
    using init_Inr(3,5) [OF assms(1)]
    by (simp add: get_average_beam_center_def np_mean_axis0_def)
  have "\<forall>k < length (data self). can_open env (os_path_join path (format_05d (0 + k + 1) @ ''.img''))"
    using assms(2) len by simp
  note loop = MRCCreator_loop_files [OF bc this, of fs]
  show ?thesis
  proof (intro conjI allI impI)
    show "fst (MRCCreator env self path fs) = None"
      using loop by (simp add: MRCCreator_def)
    show "mrc_header self = MRC_HEADER"
      by (rule init_Inr(4) [OF assms(1)])
    then show "length (mrc_header self) = 1024"
      by (simp add: length_MRC_HEADER)
  next
    fix i assume "i < length buffer"
    with loop len have "snd (MRCCreator env self path fs) (os_path_join path (format_05d (i + 1) @ ''.img''))
          = Some (mrc_header self
                  @ tobytes env (projr (fixDistortion env (rev (map (map (np_int16 env)) (data self ! i))) (xy x y))))"
      by (simp add: MRCCreator_def)
    then show "\<exists>img2.
          fixDistortion env (rev (map (map (np_int16 env)) (data self ! i))) (beam_center self) = Inr img2
        \<and> snd (MRCCreator env self path fs) (os_path_join path (format_05d (i + 1) @ ''.img''))
          = Some (mrc_header self @ concat (map (\<lambda>row. concat (map (pixel_bytes env) row)) img2))"
      by (simp add: bc fixDistortion_xy tobytes_def)
  qed
qed

theorem MRCCreator_files_witness:
  "fst (MRCCreator ex_env ex_self ''out'' Map.empty) = None
   \<and> length (mrc_header ex_self) = 1024
   \<and> snd (MRCCreator ex_env ex_self ''out'' Map.empty) ''out/00002.img''
       = Some (MRC_HEADER @ concat (map (\<lambda>row. concat (map (pixel_bytes ex_env) row)) [[7, 8], [5, 6]]))"
proof -
  have opens: "\<forall>i < length ex_buffer. can_open ex_env (os_path_join ''out'' (format_05d (i + 1) @ ''.img''))"
    by (simp add: ex_can_open)
  note files = MRCCreator_files [OF ex_run [unfolded ex_run_def] opens, of Map.empty]
  have name: "os_path_join ''out'' (format_05d (Suc (Suc 0)) @ ''.img'') = ''out/00002.img''"
  proof -
    have "format_05d (Suc (Suc 0)) = ''00002''" by code_simp
    then show ?thesis by (simp add: os_path_join_def)
  qed
  have frame: "rev (map (map (np_int16 ex_env)) (data ex_self ! Suc 0)) = [[7, 8], [5, 6]]"
    by (simp add: ex_self_def ex_buffer_def ex_env_def)
  have bc: "beam_center ex_self = xy 100 120" and hd: "mrc_header ex_self = MRC_HEADER"
    by (simp_all add: ex_self_def)
  have "1 < length ex_buffer"
    by (simp add: ex_buffer_def)
  with files obtain img2 where
    "fixDistortion ex_env (rev (map (map (np_int16 ex_env)) (data ex_self ! 1))) (beam_center ex_self) = Inr img2"
    and "snd (MRCCreator ex_env ex_self ''out'' Map.empty) (os_path_join ''out'' (format_05d (1 + 1) @ ''.img''))
          = Some (mrc_header ex_self @ concat (map (\<lambda>row. concat (map (pixel_bytes ex_env) row)) img2))"
    by blast
  then have "snd (MRCCreator ex_env ex_self ''out'' Map.empty) ''out/00002.img''
       = Some (MRC_HEADER @ concat (map (\<lambda>row. concat (map (pixel_bytes ex_env) row)) [[7, 8], [5, 6]]))"
    by (simp add: name frame bc hd ex_fixDistortion)
  with files show ?thesis by blast
qed

section \<open>The ED3D encoder\<close>

lemma fold_fwrite:
  "fold (\<lambda>i. fwrite fn (f i)) js (fs(fn \<mapsto> t)) = fs(fn \<mapsto> t @ concat (map f js))"
  by (induction js arbitrary: t) (simp_all add: fwrite_def)

lemma ED3DCreator_text:
  assumes "can_open env (os_path_join path ''1.ed3d'')"
  shows "ED3DCreator env self path rot fs =
    (None, fs(os_path_join path ''1.ed3d'' \<mapsto>
       ''WAVELENGTH    '' @ str_format env (wavelength self) @ ''\<newline>''
       @ ''ROTATIONAXIS    '' @ str_format env rot @ ''\<newline>''
       @ ''CCDPIXELSIZE    '' @ str_format env (pixelsize self) @ ''\<newline>''
       @ ''GONIOTILTSTEP    '' @ str_format env (osangle self) @ ''\<newline>''
       @ ''BEAMTILTSTEP    0\<newline>''
       @ ''BEAMTILTRANGE    0.000\<newline>''
       @ ''STRETCHINGMP    0.0\<newline>''
       @ ''STRETCHINGAZIMUTH    0.0\<newline>''
       @ ''\<newline>''
       @ ''FILELIST\<newline>''
       @ concat (map (ed3d_file_line env self path) [0 ..< length (data self)])
       @ ''ENDFILELIST''))"
  using assms by (simp add: ED3DCreator_def fopen_w_def fwrite_def fold_fwrite Let_def)




section \<open>The stored rotation angle\<close>

lemma MRCCreator_loop_rotation_angle:
  "MRCCreator_loop env (self \<lparr> rotation_angle := r \<rparr>) path i ds fs = MRCCreator_loop env self path i ds fs"
  by (induction ds arbitrary: i fs) (simp_all add: Let_def split: sum.splits)

lemma ed3d_file_line_rotation_angle:
  "ed3d_file_line env (self \<lparr> rotation_angle := r \<rparr>) path = ed3d_file_line env self path"
  by (rule ext) (simp add: ed3d_file_line_def)

text \<open>
  C10. No encoder reads the attribute \<open>rotation_angle\<close>: replacing its value changes the
  result of none of the five methods, for equal arguments. The \<open>ROTATIONAXIS\<close> line of
  \<^verbatim>\<open>1.ed3d\<close> and the vector \<open>(cos a, cos (a + pi/2), 0)\<close> handed to the XDS template are
  computed from the argument \<open>a\<close> of the call.
\<close>

theorem rotation_angle_attribute_unused:
  "writeTiff env (self \<lparr> rotation_angle := r \<rparr>) path fs = writeTiff env self path fs
   \<and> writeIMG env (self \<lparr> rotation_angle := r \<rparr>) path fs = writeIMG env self path fs
   \<and> MRCCreator env (self \<lparr> rotation_angle := r \<rparr>) path fs = MRCCreator env self path fs
   \<and> ED3DCreator env (self \<lparr> rotation_angle := r \<rparr>) path rot fs = ED3DCreator env self path rot fs
   \<and> XDSINPCreator env (self \<lparr> rotation_angle := r \<rparr>) path rot fs
       = XDSINPCreator env self path rot fs
   \<and> (can_open env (os_path_join path ''1.ed3d'') \<longrightarrow>
        (\<exists>rest. snd (ED3DCreator env self path rot fs) (os_path_join path ''1.ed3d'') =
           Some (''WAVELENGTH    '' @ str_format env (wavelength self) @ ''\<newline>''
                 @ ''ROTATIONAXIS    '' @ str_format env rot @ ''\<newline>'' @ rest)))
   \<and> (can_open env (os_path_join path ''XDS.INP'') \<and> beam_center self = xy x y \<longrightarrow>
        XDSINPCreator env self path rot fs =
          (None, fs(os_path_join path ''XDS.INP'' \<mapsto> XDS_template_format env
             [(''data_begin'', PInt 1),
              (''data_end'', PInt (int (length (data self)))),
              (''starting_angle'', PFloat (startangle self)),
              (''wavelength'', PFloat (wavelength self)),
              (''dmin'', PFloat (dmin self)),
              (''dmax'', PFloat (dmax self)),
              (''origin_x'', PFloat x),
              (''origin_y'', PFloat y),
              (''sign'', PStr ''+''),
              (''detdist'', PFloat (distance self)),
              (''osangle'', PFloat (osangle self)),
              (''rot_x'', PFloat (cos rot)),
              (''rot_y'', PFloat (cos (rot + pi / 2))),
              (''rot_z'', PFloat 0)])))"
proof (intro conjI impI)
  show "writeTiff env (self \<lparr> rotation_angle := r \<rparr>) path fs = writeTiff env self path fs"
    by (simp add: writeTiff_def)
  show "writeIMG env (self \<lparr> rotation_angle := r \<rparr>) path fs = writeIMG env self path fs"
    by (simp add: writeIMG_def self_header_def)
  show "MRCCreator env (self \<lparr> rotation_angle := r \<rparr>) path fs = MRCCreator env self path fs"
    by (simp add: MRCCreator_def MRCCreator_loop_rotation_angle)
  show "ED3DCreator env (self \<lparr> rotation_angle := r \<rparr>) path rot fs = ED3DCreator env self path rot fs"
    by (simp add: ED3DCreator_def ed3d_file_line_rotation_angle Let_def split: sum.splits)
  show "XDSINPCreator env (self \<lparr> rotation_angle := r \<rparr>) path rot fs
       = XDSINPCreator env self path rot fs"
    by (simp add: XDSINPCreator_def Let_def split: sum.splits)
  show "\<exists>rest. snd (ED3DCreator env self path rot fs) (os_path_join path ''1.ed3d'') =
           Some (''WAVELENGTH    '' @ str_format env (wavelength self) @ ''\<newline>''
                 @ ''ROTATIONAXIS    '' @ str_format env rot @ ''\<newline>'' @ rest)"
    if "can_open env (os_path_join path ''1.ed3d'')"
    by (simp add: ED3DCreator_text [OF that])
  show "XDSINPCreator env self path rot fs =
          (None, fs(os_path_join path ''XDS.INP'' \<mapsto> XDS_template_format env
             [(''data_begin'', PInt 1),
              (''data_end'', PInt (int (length (data self)))),
              (''starting_angle'', PFloat (startangle self)),
              (''wavelength'', PFloat (wavelength self)),
              (''dmin'', PFloat (dmin self)),
              (''dmax'', PFloat (dmax self)),
              (''origin_x'', PFloat x),
              (''origin_y'', PFloat y),
              (''sign'', PStr ''+''),
              (''detdist'', PFloat (distance self)),
              (''osangle'', PFloat (osangle self)),
              (''rot_x'', PFloat (cos rot)),
              (''rot_y'', PFloat (cos (rot + pi / 2))),
              (''rot_z'', PFloat 0)]))"
    if "can_open env (os_path_join path ''XDS.INP'') \<and> beam_center self = xy x y"
    using that by (simp add: XDSINPCreator_def components_def fopen_w_def fwrite_def Let_def)
qed

theorem rotation_angle_attribute_unused_witness:
  "ED3DCreator ex_env (ex_self \<lparr> rotation_angle := 1 \<rparr>) ''out'' 0 Map.empty
     = ED3DCreator ex_env ex_self ''out'' 0 Map.empty
   \<and> XDSINPCreator ex_env (ex_self \<lparr> rotation_angle := 1 \<rparr>) ''out'' 0 Map.empty
     = (None, [''out/XDS.INP'' \<mapsto>
         ''data_begin;data_end;starting_angle;wavelength;dmin;dmax;origin_x;origin_y;sign;detdist;osangle;rot_x;rot_y;rot_z;''])"
proof -
  have bc: "beam_center ex_self = xy 100 120"
    by (simp add: ex_self_def)
  have join: "os_path_join ''out'' ''XDS.INP'' = ''out/XDS.INP''"
    by (simp add: os_path_join_def)
  have tmpl: "XDS_template_format ex_env = (\<lambda>kw. concat (map (\<lambda>(k, v). k @ '';'') kw))"
    by (simp add: ex_env_def)
  from rotation_angle_attribute_unused [where env = ex_env and self = ex_self and r = 1
      and path = "''out''" and rot = 0 and fs = Map.empty and x = 100 and y = 120]
  show ?thesis
    by (simp add: bc join tmpl ex_can_open)
qed

end
